theory Spec2Isabelle
  imports Complex_Main
begin

section \<open>Data model of \<open>evaluate_species_prediction.py\<close>\<close>

text \<open>
  The module evaluates protein-function predictions against a benchmark.  Its inputs are
  two JSON objects.  A Python \<open>dict\<close> is modelled as an association list in insertion
  order; a dictionary has no repeated key, which is the predicate \<open>dict_ok\<close>.  Term and
  protein identifiers are strings.  Confidence scores are Python floats that are only ever
  compared, collected in a set and sorted, never added or multiplied, so the model is
  polymorphic in a linearly ordered type \<open>'v\<close> (a float other than NaN); the constant
  \<open>0\<close> of that type is the \<open>0.0\<close> that \<open>numpy.zeros\<close> puts into a fresh table.
  Python integers are \<open>int\<close>.
\<close>

type_synonym ('k, 'a) dict = "('k \<times> 'a) list"

definition dict_ok :: "('k, 'a) dict \<Rightarrow> bool" where
  "dict_ok d = distinct (map fst d)"

definition dict_keys :: "('k, 'a) dict \<Rightarrow> 'k list" where
  "dict_keys d = map fst d"

definition dict_values :: "('k, 'a) dict \<Rightarrow> 'a list" where
  "dict_values d = map snd d"

definition dict_items :: "('k, 'a) dict \<Rightarrow> ('k \<times> 'a) list" where
  "dict_items d = d"

text \<open>\<open>d.get(k)\<close> is \<open>None\<close> for a missing key; \<open>d.get(k, dflt)\<close> is \<open>dflt\<close>.\<close>

definition dict_get :: "('k, 'a) dict \<Rightarrow> 'k \<Rightarrow> 'a option" where
  "dict_get d k = map_of d k"

definition dict_get_default :: "('k, 'a) dict \<Rightarrow> 'k \<Rightarrow> 'a \<Rightarrow> 'a" where
  "dict_get_default d k dflt = (case map_of d k of None \<Rightarrow> dflt | Some a \<Rightarrow> a)"

type_synonym 'v predictions = "(string, (string, 'v) dict) dict"

text \<open>
  The benchmark object is read only through \<open>benchmark_dict.get(...)\<close> of five fixed keys.
  Each field of the record below is the result of that call: \<open>None\<close> when the key is
  missing or its JSON value is \<open>null\<close>.
\<close>

record benchmark =
  benchmark_ontology :: "string option"
  benchmark_ontology_term_count :: "int option"
  benchmark_taxon :: "string option"
  benchmark_taxon_id :: "int option"
  protein_annotations :: "(string, string list) dict option"

text \<open>The exceptions that the modelled statements can raise.\<close>

datatype py_error = IndexError | KeyError | TypeError | AttributeError | ZeroDivisionError

section \<open>The set-based confusion calculator\<close>

text \<open>
  \<open>get_confusion_matrix_terms\<close> returns a dictionary with the three keys \<open>"TP"\<close>,
  \<open>"FP"\<close>, \<open>"FN"\<close>; it is a record with these three fields here.  \<open>&\<close> is
  intersection and \<open>-\<close> is difference of Python sets.
\<close>

record cm_terms =
  TP_terms :: "string set"
  FP_terms :: "string set"
  FN_terms :: "string set"

definition get_confusion_matrix_terms :: "string set \<Rightarrow> string set \<Rightarrow> cm_terms" where
  "get_confusion_matrix_terms predicted_terms benchmark_terms =
     (let true_positive_terms = predicted_terms \<inter> benchmark_terms;
          false_positive_terms = predicted_terms - benchmark_terms;
          false_negative_terms = benchmark_terms - predicted_terms
      in \<lparr>TP_terms = true_positive_terms,
          FP_terms = false_positive_terms,
          FN_terms = false_negative_terms\<rparr>)"

record cm_counts =
  TP :: int
  FP :: int
  FN :: int

text \<open>\<open>len\<close> of a Python set is the cardinality of the (finite) set.\<close>

definition calculate_confusion_matrix :: "string set \<Rightarrow> string set \<Rightarrow> cm_counts" where
  "calculate_confusion_matrix predicted_terms benchmark_terms =
     (let cm = get_confusion_matrix_terms predicted_terms benchmark_terms;
          true_positive = int (card (TP_terms cm));
          false_positive = int (card (FP_terms cm));
          false_negative = int (card (FN_terms cm))
      in \<lparr>TP = true_positive, FP = false_positive, FN = false_negative\<rparr>)"

text \<open>\<open>sum(conf_matrix.values())\<close> adds the three counts.\<close>

definition sum_values :: "cm_counts \<Rightarrow> int" where
  "sum_values cm = TP cm + FP cm + FN cm"

section \<open>The table\<close>

text \<open>
  A \<open>pandas.DataFrame\<close> is the list of its rows, in row order.  The initializer creates
  the six columns \<open>protein\<close>, \<open>threshold\<close>, \<open>tp\<close>, \<open>fp\<close>, \<open>fn\<close>, \<open>tn\<close> and then
  makes the first two the (composite) index; the populator adds three metadata columns.
  A row of the initializer's table is a \<open>df_row\<close>, a row of the final table an
  \<open>out_row\<close>, which extends it.  \<open>astype\<close> makes the four count columns 64-bit
  integers: \<open>int64_ok\<close> is the range of values that such a column can hold.
\<close>

record 'v df_row =
  protein :: string
  threshold :: 'v
  tp :: int
  fp :: int
  fn :: int
  tn :: int

record 'v out_row = "'v df_row" +
  ontology :: "string option"
  taxon_id :: "int option"
  taxon :: "string option"

definition int64_ok :: "int \<Rightarrow> bool" where
  "int64_ok v \<longleftrightarrow> - (2 ^ 63) \<le> v \<and> v < 2 ^ 63"

definition index_key :: "('v, 'z) df_row_scheme \<Rightarrow> string \<times> 'v" where
  "index_key r = (protein r, threshold r)"

text \<open>
  \<open>numpy.zeros((n, 6))\<close> cast with \<open>astype\<close>: the string of \<open>0.0\<close>, the float
  \<open>0.0\<close> and four integers \<open>0\<close>.
\<close>

definition zeros_row :: "'v::zero df_row" where
  "zeros_row = \<lparr>protein = ''0.0'', threshold = 0, tp = 0, fp = 0, fn = 0, tn = 0\<rparr>"

text \<open>
  \<open>xs[i]\<close> on a Python list: a negative index counts from the end, an index outside
  the list raises \<open>IndexError\<close>.
\<close>

definition py_getitem :: "'a list \<Rightarrow> int \<Rightarrow> py_error + 'a" where
  "py_getitem xs i =
     (if 0 \<le> i \<and> i < int (length xs) then Inr (xs ! nat i)
      else if i < 0 \<and> - int (length xs) \<le> i then Inr (xs ! nat (int (length xs) + i))
      else Inl IndexError)"

text \<open>\<open>df.iloc[i, c] = v\<close>: positional write into row \<open>i\<close>, \<open>IndexError\<close> outside.\<close>

definition iloc_set ::
  "'r list \<Rightarrow> nat \<Rightarrow> ('r \<Rightarrow> 'r) \<Rightarrow> py_error + 'r list" where
  "iloc_set df i upd =
     (if i < length df then Inr (df[i := upd (df ! i)]) else Inl IndexError)"

text \<open>
  \<open>df.loc[protein, threshold].col = v\<close> is a chained assignment: \<open>.loc\<close> looks the
  row with that composite key up (\<open>KeyError\<close> when the table has none) and returns it as
  a \<open>Series\<close>, and the assignment writes into that \<open>Series\<close>.  Whether the write
  reaches the table is decided by the installed pandas and not by the program.  With a
  pandas that hands out a view of the table (\<open>View\<close>; the 1.x versions do, and the filled
  table in the docstring of \<open>get_confusion_matrix_dataframe\<close> comes from one) the column
  of the table is overwritten.  With a pandas that hands out a copy (\<open>Copy\<close>; versions
  2.0 and later) the write is lost and the table keeps its values.  The mode is a
  parameter of the model.  The keys of the program's table come from the keys of a
  dictionary and the elements of a set, so a key selects one row; the model writes to
  every row that carries the key.
\<close>

datatype row_access = View | Copy

definition loc_set ::
  "row_access \<Rightarrow> ('v, 'z) df_row_scheme list \<Rightarrow> string \<Rightarrow> 'v \<Rightarrow>
     (('v, 'z) df_row_scheme \<Rightarrow> ('v, 'z) df_row_scheme) \<Rightarrow>
     py_error + ('v, 'z) df_row_scheme list" where
  "loc_set access df p t upd =
     (if (p, t) \<in> set (map index_key df)
      then (case access of
              View \<Rightarrow> Inr (map (\<lambda>r. if index_key r = (p, t) then upd r else r) df)
            | Copy \<Rightarrow> Inr df)
      else Inl KeyError)"

text \<open>
  The same for an integer that is assigned to an \<open>int64\<close> column.  A value outside the
  64-bit range cannot be put into the row that \<open>.loc\<close> returned: the \<open>Series\<close> changes
  its own storage to hold it, nothing is raised, and the table keeps its value, as with a
  copy.
\<close>

definition loc_set_int64 ::
  "row_access \<Rightarrow> ('v, 'z) df_row_scheme list \<Rightarrow> string \<Rightarrow> 'v \<Rightarrow> int \<Rightarrow>
     (int \<Rightarrow> ('v, 'z) df_row_scheme \<Rightarrow> ('v, 'z) df_row_scheme) \<Rightarrow>
     py_error + ('v, 'z) df_row_scheme list" where
  "loc_set_int64 access df p t v column =
     (if int64_ok v then loc_set access df p t (column v)
      else loc_set Copy df p t (column v))"

section \<open>The threshold/protein table initializer\<close>

text \<open>
  One pass of the body of \<open>for i in range(0, df.shape[0])\<close>.  The state of the loop is
  the variable \<open>benchmark_protein_index\<close> and the table.  \<open>i % len(thresholds)\<close> raises
  \<open>ZeroDivisionError\<close> for an empty threshold list.
\<close>

fun init_step ::
  "string list \<Rightarrow> 'v list \<Rightarrow> nat \<Rightarrow> int \<times> 'v df_row list \<Rightarrow>
     py_error + (int \<times> 'v df_row list)" where
  "init_step proteins thresholds i (benchmark_protein_index, df) =
     (if length thresholds = 0 then Inl ZeroDivisionError
      else
        (let threshold_index = i mod length thresholds;
             benchmark_protein_index' =
               (if threshold_index = 0 then benchmark_protein_index + 1
                else benchmark_protein_index)
         in (case py_getitem proteins benchmark_protein_index' of
               Inl e \<Rightarrow> Inl e
             | Inr p \<Rightarrow>
                (case iloc_set df i (\<lambda>r. r\<lparr>protein := p\<rparr>) of
                   Inl e \<Rightarrow> Inl e
                 | Inr df1 \<Rightarrow>
                    (case py_getitem thresholds (int threshold_index) of
                       Inl e \<Rightarrow> Inl e
                     | Inr t \<Rightarrow>
                        (case iloc_set df1 i (\<lambda>r. r\<lparr>threshold := t\<rparr>) of
                           Inl e \<Rightarrow> Inl e
                         | Inr df2 \<Rightarrow> Inr (benchmark_protein_index', df2)))))))"

fun init_loop ::
  "string list \<Rightarrow> 'v list \<Rightarrow> nat list \<Rightarrow> int \<times> 'v df_row list \<Rightarrow>
     py_error + (int \<times> 'v df_row list)" where
  "init_loop proteins thresholds [] st = Inr st"
| "init_loop proteins thresholds (i # rest) st =
     (case init_step proteins thresholds i st of
        Inl e \<Rightarrow> Inl e
      | Inr st' \<Rightarrow> init_loop proteins thresholds rest st')"

definition initialize_proteins_and_thresholds_dataframe ::
  "string list \<Rightarrow> 'v::zero list \<Rightarrow> py_error + 'v df_row list" where
  "initialize_proteins_and_thresholds_dataframe proteins thresholds =
     (let n = length proteins * length thresholds;
          protein_and_threshold_df = replicate n zeros_row
      in case init_loop proteins thresholds [0..<n] (- 1, protein_and_threshold_df) of
           Inl e \<Rightarrow> Inl e
         | Inr (benchmark_protein_index, df) \<Rightarrow> Inr df)"

section \<open>The matrix populator\<close>

text \<open>
  The set comprehension over all score values of all proteins, and
  \<open>sorted(list(...))\<close> of it.
\<close>

definition prediction_scores :: "'v predictions \<Rightarrow> 'v set" where
  "prediction_scores prediction_dict =
     set [v. scores \<leftarrow> dict_values prediction_dict, v \<leftarrow> dict_values scores]"

definition distinct_prediction_thresholds :: "'v::linorder predictions \<Rightarrow> 'v list" where
  "distinct_prediction_thresholds prediction_dict =
     sorted_list_of_set (prediction_scores prediction_dict)"

text \<open>\<open>{k for k, v in predicted_terms.items() if v >= threshold}\<close>\<close>

definition predicted_annotations :: "(string, 'v::linorder) dict \<Rightarrow> 'v \<Rightarrow> string set" where
  "predicted_annotations predicted_terms thr =
     set [k. (k, v) \<leftarrow> dict_items predicted_terms, v \<ge> thr]"

text \<open>
  \<open>true_negative = benchmark_ontology_term_count - sum(conf_matrix.values())\<close>, the
  value that the program computes for a cell.
\<close>

definition true_negative_of :: "int \<Rightarrow> cm_counts \<Rightarrow> int" where
  "true_negative_of term_count conf_matrix = term_count - sum_values conf_matrix"

text \<open>
  The body of the inner loop, for one threshold and one protein.
  \<open>set(benchmark_annotations.get(protein))\<close> raises \<open>TypeError\<close> when \<open>get\<close> finds no
  entry, and so does the subtraction when the term count is \<open>None\<close>.  The four
  assignments through \<open>.loc\<close> follow in the order of the source.  The first three
  values are \<open>len\<close> of a Python set, which is below \<open>2 ^ 63\<close> and fits the column;
  \<open>true_negative\<close> is derived from the term count of the input and need not fit.
\<close>

definition fill_cell ::
  "row_access \<Rightarrow> 'v::linorder predictions \<Rightarrow> (string, string list) dict \<Rightarrow> int option \<Rightarrow>
     'v \<Rightarrow> string \<Rightarrow> 'v df_row list \<Rightarrow> py_error + 'v df_row list" where
  "fill_cell access prediction_dict benchmark_annotations term_count thr prot df =
     (let predicted_terms = dict_get_default prediction_dict prot [];
          predicted = predicted_annotations predicted_terms thr
      in case dict_get benchmark_annotations prot of
           None \<Rightarrow> Inl TypeError
         | Some terms \<Rightarrow>
            (let benchmark_protein_annotation = set terms;
                 conf_matrix = calculate_confusion_matrix predicted benchmark_protein_annotation
             in case term_count of
                  None \<Rightarrow> Inl TypeError
                | Some n \<Rightarrow>
                   (let true_negative = true_negative_of n conf_matrix
                    in case loc_set access df prot thr (\<lambda>r. r\<lparr>tp := TP conf_matrix\<rparr>) of
                         Inl e \<Rightarrow> Inl e
                       | Inr df1 \<Rightarrow>
                          (case loc_set access df1 prot thr (\<lambda>r. r\<lparr>fp := FP conf_matrix\<rparr>) of
                             Inl e \<Rightarrow> Inl e
                           | Inr df2 \<Rightarrow>
                              (case loc_set access df2 prot thr (\<lambda>r. r\<lparr>fn := FN conf_matrix\<rparr>) of
                                 Inl e \<Rightarrow> Inl e
                               | Inr df3 \<Rightarrow>
                                  loc_set_int64 access df3 prot thr true_negative
                                    (\<lambda>v r. r\<lparr>tn := v\<rparr>))))))"

text \<open>\<open>for protein in benchmark_proteins\<close>, inside \<open>for threshold in ...\<close>.\<close>

fun proteins_loop ::
  "row_access \<Rightarrow> 'v::linorder predictions \<Rightarrow> (string, string list) dict \<Rightarrow> int option \<Rightarrow>
     'v \<Rightarrow> string list \<Rightarrow> 'v df_row list \<Rightarrow> py_error + 'v df_row list" where
  "proteins_loop access prediction_dict anns term_count thr [] df = Inr df"
| "proteins_loop access prediction_dict anns term_count thr (prot # rest) df =
     (case fill_cell access prediction_dict anns term_count thr prot df of
        Inl e \<Rightarrow> Inl e
      | Inr df' \<Rightarrow> proteins_loop access prediction_dict anns term_count thr rest df')"

fun thresholds_loop ::
  "row_access \<Rightarrow> 'v::linorder predictions \<Rightarrow> (string, string list) dict \<Rightarrow> int option \<Rightarrow>
     'v list \<Rightarrow> string list \<Rightarrow> 'v df_row list \<Rightarrow> py_error + 'v df_row list" where
  "thresholds_loop access prediction_dict anns term_count [] benchmark_proteins df = Inr df"
| "thresholds_loop access prediction_dict anns term_count (thr # rest) benchmark_proteins df =
     (case proteins_loop access prediction_dict anns term_count thr benchmark_proteins df of
        Inl e \<Rightarrow> Inl e
      | Inr df' \<Rightarrow>
         thresholds_loop access prediction_dict anns term_count rest benchmark_proteins df')"

text \<open>
  \<open>df.insert(0, name, value)\<close>, three times: every row gets the same three values.
\<close>

definition insert_metadata ::
  "string option \<Rightarrow> int option \<Rightarrow> string option \<Rightarrow> 'v df_row \<Rightarrow> 'v out_row" where
  "insert_metadata ont tid tax r =
     \<lparr>protein = protein r, threshold = threshold r,
      tp = tp r, fp = fp r, fn = fn r, tn = tn r,
      ontology = ont, taxon_id = tid, taxon = tax\<rparr>"

text \<open>
  Everything of \<open>get_confusion_matrix_dataframe\<close> after the threshold list is known.
  \<open>benchmark_annotations.keys()\<close> raises \<open>AttributeError\<close> when the object has no
  \<open>protein_annotations\<close>.
\<close>

definition confusion_matrix_for_thresholds ::
  "row_access \<Rightarrow> 'v::{linorder,zero} list \<Rightarrow> 'v predictions \<Rightarrow> benchmark \<Rightarrow>
     py_error + 'v out_row list" where
  "confusion_matrix_for_thresholds access thresholds prediction_dict benchmark_dict =
     (case protein_annotations benchmark_dict of
        None \<Rightarrow> Inl AttributeError
      | Some benchmark_annotations \<Rightarrow>
         (let benchmark_proteins = dict_keys benchmark_annotations
          in case initialize_proteins_and_thresholds_dataframe benchmark_proteins thresholds of
               Inl e \<Rightarrow> Inl e
             | Inr protein_and_threshold_df \<Rightarrow>
                (case thresholds_loop access prediction_dict benchmark_annotations
                        (benchmark_ontology_term_count benchmark_dict)
                        thresholds benchmark_proteins protein_and_threshold_df of
                   Inl e \<Rightarrow> Inl e
                 | Inr df \<Rightarrow>
                    Inr (map (insert_metadata (benchmark_ontology benchmark_dict)
                                (benchmark_taxon_id benchmark_dict)
                                (benchmark_taxon benchmark_dict)) df))))"

text \<open>
  The function of the source: the threshold list first, then the rest.  Its first
  argument is not an argument of the Python function; it says which pandas runs it.
\<close>

definition get_confusion_matrix_dataframe ::
  "row_access \<Rightarrow> 'v::{linorder,zero} predictions \<Rightarrow> benchmark \<Rightarrow>
     py_error + 'v out_row list" where
  "get_confusion_matrix_dataframe access prediction_dict benchmark_dict =
     confusion_matrix_for_thresholds access (distinct_prediction_thresholds prediction_dict)
       prediction_dict benchmark_dict"

section \<open>The table the program is shown to build\<close>

text \<open>
  The definitions of this section are not taken from the source.  They describe, in closed
  form, the table that the loops above are proved to produce, and the claims are derived
  from that description.  \<open>empty_table\<close> is the table of the initializer: one zero row for
  every protein and, within a protein, for every threshold.
\<close>

definition key_row :: "string \<Rightarrow> 'v \<Rightarrow> 'v df_row" where
  "key_row p t = \<lparr>protein = p, threshold = t, tp = 0, fp = 0, fn = 0, tn = 0\<rparr>"

definition empty_table :: "string list \<Rightarrow> 'v list \<Rightarrow> 'v df_row list" where
  "empty_table proteins thresholds =
     map (\<lambda>(p, t). key_row p t) (List.product proteins thresholds)"

text \<open>
  \<open>cell_counts\<close> is the confusion matrix of one cell, \<open>filled\<close> a row after the four
  writes of its cell, and \<open>filled_on V\<close> a table whose cells in \<open>V\<close> have been written.
\<close>

definition benchmark_terms_of :: "(string, string list) dict \<Rightarrow> string \<Rightarrow> string set" where
  "benchmark_terms_of anns p = (case dict_get anns p of None \<Rightarrow> {} | Some terms \<Rightarrow> set terms)"

definition cell_counts ::
  "'v::linorder predictions \<Rightarrow> (string, string list) dict \<Rightarrow> string \<Rightarrow> 'v \<Rightarrow> cm_counts" where
  "cell_counts pd anns p t =
     calculate_confusion_matrix (predicted_annotations (dict_get_default pd p []) t)
       (benchmark_terms_of anns p)"

definition filled ::
  "row_access \<Rightarrow> 'v::linorder predictions \<Rightarrow> (string, string list) dict \<Rightarrow> int \<Rightarrow>
     'v df_row \<Rightarrow> 'v df_row" where
  "filled access pd anns n r =
     (case access of
        Copy \<Rightarrow> r
      | View \<Rightarrow>
         r\<lparr>tp := TP (cell_counts pd anns (protein r) (threshold r)),
           fp := FP (cell_counts pd anns (protein r) (threshold r)),
           fn := FN (cell_counts pd anns (protein r) (threshold r)),
           tn := (if int64_ok (true_negative_of n (cell_counts pd anns (protein r) (threshold r)))
                  then true_negative_of n (cell_counts pd anns (protein r) (threshold r))
                  else tn r)\<rparr>)"

definition filled_on ::
  "(string \<times> 'v) set \<Rightarrow> row_access \<Rightarrow> 'v::linorder predictions \<Rightarrow>
     (string, string list) dict \<Rightarrow> int \<Rightarrow> 'v df_row list \<Rightarrow> 'v df_row list" where
  "filled_on V access pd anns n df =
     map (\<lambda>r. if index_key r \<in> V then filled access pd anns n r else r) df"

text \<open>The rows of the returned table, with the metadata columns.\<close>

definition expected_row ::
  "row_access \<Rightarrow> 'v::linorder predictions \<Rightarrow> benchmark \<Rightarrow> (string, string list) dict \<Rightarrow>
     int \<Rightarrow> string \<Rightarrow> 'v \<Rightarrow> 'v out_row" where
  "expected_row access pd bd anns n p t =
     insert_metadata (benchmark_ontology bd) (benchmark_taxon_id bd) (benchmark_taxon bd)
       (filled access pd anns n (key_row p t))"

definition expected_table ::
  "row_access \<Rightarrow> 'v::linorder list \<Rightarrow> 'v predictions \<Rightarrow> benchmark \<Rightarrow>
     (string, string list) dict \<Rightarrow> int \<Rightarrow> 'v out_row list" where
  "expected_table access ts pd bd anns n =
     map (\<lambda>(p, t). expected_row access pd bd anns n p t) (List.product (dict_keys anns) ts)"

section \<open>Concrete inputs\<close>

text \<open>
  Scenario A of the specification: one protein with two scored terms, a benchmark of two
  terms for it, and an ontology of ten terms.
\<close>

definition scenario_A_predictions :: "real predictions" where
  "scenario_A_predictions = [(''P1'', [(''GO:1'', 0.5), (''GO:2'', 0.9)])]"

definition scenario_A_benchmark :: benchmark where
  "scenario_A_benchmark =
     \<lparr>benchmark_ontology = Some ''X'', benchmark_ontology_term_count = Some 10,
      benchmark_taxon = Some ''T'', benchmark_taxon_id = Some 1,
      protein_annotations = Some [(''P1'', [''GO:1'', ''GO:3''])]\<rparr>"

definition scenario_A_row_05 :: "real out_row" where
  "scenario_A_row_05 =
     \<lparr>protein = ''P1'', threshold = 0.5, tp = 1, fp = 1, fn = 1, tn = 7,
      ontology = Some ''X'', taxon_id = Some 1, taxon = Some ''T''\<rparr>"

definition scenario_A_row_09 :: "real out_row" where
  "scenario_A_row_09 =
     \<lparr>protein = ''P1'', threshold = 0.9, tp = 0, fp = 1, fn = 2, tn = 7,
      ontology = Some ''X'', taxon_id = Some 1, taxon = Some ''T''\<rparr>"

text \<open>
  Scenario B: the benchmark protein \<open>P2\<close> has no predictions, the predicted protein
  \<open>P3\<close> is not in the benchmark, and the annotation list of \<open>P2\<close> repeats a term.
\<close>

definition scenario_B_predictions :: "real predictions" where
  "scenario_B_predictions =
     [(''P1'', [(''GO:1'', 0.5), (''GO:2'', 0.9)]), (''P3'', [(''GO:9'', 0.7)])]"

definition scenario_B_benchmark :: benchmark where
  "scenario_B_benchmark =
     \<lparr>benchmark_ontology = Some ''X'', benchmark_ontology_term_count = Some 10,
      benchmark_taxon = Some ''T'', benchmark_taxon_id = None,
      protein_annotations =
        Some [(''P1'', [''GO:1'', ''GO:3'']), (''P2'', [''GO:4'', ''GO:5'', ''GO:4''])]\<rparr>"

definition scenario_B_row :: "string \<Rightarrow> real \<Rightarrow> int \<Rightarrow> int \<Rightarrow> int \<Rightarrow> int \<Rightarrow> real out_row" where
  "scenario_B_row p t a b c d =
     \<lparr>protein = p, threshold = t, tp = a, fp = b, fn = c, tn = d,
      ontology = Some ''X'', taxon_id = None, taxon = Some ''T''\<rparr>"

definition scenario_B_table :: "real out_row list" where
  "scenario_B_table =
     [scenario_B_row ''P1'' 0.5 1 1 1 7,
      scenario_B_row ''P1'' 0.7 0 1 2 7,
      scenario_B_row ''P1'' 0.9 0 1 2 7,
      scenario_B_row ''P2'' 0.5 0 0 2 8,
      scenario_B_row ''P2'' 0.7 0 0 2 8,
      scenario_B_row ''P2'' 0.9 0 0 2 8]"

text \<open>
  The predictions of scenario A against an ontology said to have two terms only: every
  cell has \<open>tp + fp + fn = 3\<close>.
\<close>

definition small_ontology_benchmark :: benchmark where
  "small_ontology_benchmark =
     \<lparr>benchmark_ontology = Some ''X'', benchmark_ontology_term_count = Some 2,
      benchmark_taxon = Some ''T'', benchmark_taxon_id = Some 1,
      protein_annotations = Some [(''P1'', [''GO:1'', ''GO:3''])]\<rparr>"



text \<open>
  Scenario A run by a pandas that hands out copies: the rows as the initializer left them.
\<close>

definition unwritten_row_05 :: "real out_row" where
  "unwritten_row_05 =
     \<lparr>protein = ''P1'', threshold = 0.5, tp = 0, fp = 0, fn = 0, tn = 0,
      ontology = Some ''X'', taxon_id = Some 1, taxon = Some ''T''\<rparr>"

definition unwritten_row_09 :: "real out_row" where
  "unwritten_row_09 =
     \<lparr>protein = ''P1'', threshold = 0.9, tp = 0, fp = 0, fn = 0, tn = 0,
      ontology = Some ''X'', taxon_id = Some 1, taxon = Some ''T''\<rparr>"







section \<open>Properties of the calculator\<close>

lemma cm_terms_simps:
  "TP_terms (get_confusion_matrix_terms P B) = P \<inter> B"
  "FP_terms (get_confusion_matrix_terms P B) = P - B"
  "FN_terms (get_confusion_matrix_terms P B) = B - P"
  by (simp_all add: get_confusion_matrix_terms_def)

lemma cm_counts_simps:
  "TP (calculate_confusion_matrix P B) = int (card (P \<inter> B))"
  "FP (calculate_confusion_matrix P B) = int (card (P - B))"
  "FN (calculate_confusion_matrix P B) = int (card (B - P))"
  by (simp_all add: calculate_confusion_matrix_def cm_terms_simps)

section \<open>The initializer builds the empty table\<close>

lemma init_loop_append:
  "init_loop ps ts (xs @ ys) st =
     (case init_loop ps ts xs st of Inl e \<Rightarrow> Inl e | Inr st' \<Rightarrow> init_loop ps ts ys st')"
  by (induction xs arbitrary: st) (auto split: sum.splits)

lemma empty_table_nth:
  "k < length ps * length ts \<Longrightarrow>
     empty_table ps ts ! k = key_row (ps ! (k div length ts)) (ts ! (k mod length ts))"
  by (simp add: empty_table_def product_nth)

lemma length_empty_table [simp]: "length (empty_table ps ts) = length ps * length ts"
  by (simp add: empty_table_def)

lemma div_less_of_mult:
  fixes k :: nat
  assumes "k < P * T"
  shows "k div T < P"
  using assms by (rule less_mult_imp_div_less)

lemma index_after_step:
  fixes k T :: nat
  assumes "0 < T"
  shows "(if k mod T = 0 then (if k = 0 then - 1 else int ((k - 1) div T)) + 1
          else (if k = 0 then - 1 else int ((k - 1) div T))) = int (k div T)"
proof (cases "k = 0")
  case True
  then show ?thesis by simp
next
  case False
  then obtain m where m: "k = Suc m" by (cases k) auto
  show ?thesis
  proof (cases "k mod T = 0")
    case True
    then have "Suc m mod T = 0" using m by simp
    then have "Suc m div T = Suc (m div T)"
      by (simp add: div_Suc)
    then show ?thesis using True m by simp
  next
    case False
    then have "Suc m div T = m div T"
      using m by (simp add: div_Suc)
    then show ?thesis using False m by simp
  qed
qed

lemma init_loop_prefix:
  fixes ps :: "string list" and ts :: "'v::zero list"
  assumes "k \<le> length ps * length ts"
  shows "\<exists>df. init_loop ps ts [0..<k] (- 1, replicate (length ps * length ts) zeros_row)
              = Inr (if k = 0 then - 1 else int ((k - 1) div length ts), df)
            \<and> length df = length ps * length ts
            \<and> (\<forall>j<k. df ! j = empty_table ps ts ! j)
            \<and> (\<forall>j. k \<le> j \<and> j < length ps * length ts \<longrightarrow> df ! j = zeros_row)"
  using assms
proof (induction k)
  case 0
  then show ?case by simp
next
  case (Suc k)
  let ?N = "length ps * length ts"
  let ?T = "length ts"
  from Suc.prems have kN: "k < ?N" by simp
  then have T0: "0 < ?T" by (cases ts) auto
  from kN have kP: "k div ?T < length ps" by (rule div_less_of_mult)
  from T0 have kT: "k mod ?T < ?T" by simp
  from Suc.IH kN obtain df where
    run: "init_loop ps ts [0..<k] (- 1, replicate ?N zeros_row)
            = Inr (if k = 0 then - 1 else int ((k - 1) div ?T), df)"
    and len: "length df = ?N"
    and sofar: "\<forall>j<k. df ! j = empty_table ps ts ! j"
    and rest: "\<forall>j. k \<le> j \<and> j < ?N \<longrightarrow> df ! j = zeros_row"
    by auto
  let ?old = "if k = 0 then - 1 else int ((k - 1) div ?T)"
  let ?p = "ps ! (k div ?T)"
  let ?t = "ts ! (k mod ?T)"
  let ?df2 = "df[k := (df ! k)\<lparr>protein := ?p\<rparr>, k := ((df ! k)\<lparr>protein := ?p\<rparr>)\<lparr>threshold := ?t\<rparr>]"
  have idx: "(if k mod ?T = 0 then ?old + 1 else ?old) = int (k div ?T)"
    using T0 by (rule index_after_step)
  have getp: "py_getitem ps (int (k div ?T)) = Inr ?p"
    using kP by (simp add: py_getitem_def)
  have gett: "py_getitem ts (int (k mod ?T)) = Inr ?t"
    using kT by (simp add: py_getitem_def)
  have step: "init_step ps ts k (?old, df) = Inr (int (k div ?T), ?df2)"
    using T0 kN len getp gett idx
    by (simp add: iloc_set_def Let_def)
  have zk: "df ! k = zeros_row" using rest kN by simp
  have newk: "?df2 ! k = empty_table ps ts ! k"
    using kN len zk by (simp add: empty_table_nth key_row_def zeros_row_def)
  have "init_loop ps ts [0..<Suc k] (- 1, replicate ?N zeros_row) = Inr (int (k div ?T), ?df2)"
    using run step by (simp add: init_loop_append)
  moreover have "length ?df2 = ?N" using len by simp
  moreover have "\<forall>j<Suc k. ?df2 ! j = empty_table ps ts ! j"
  proof (intro allI impI)
    fix j assume "j < Suc k"
    then consider "j < k" | "j = k" by linarith
    then show "?df2 ! j = empty_table ps ts ! j"
    proof cases
      case 1
      then show ?thesis using sofar by simp
    next
      case 2
      then show ?thesis using newk by simp
    qed
  qed
  moreover have "\<forall>j. Suc k \<le> j \<and> j < ?N \<longrightarrow> ?df2 ! j = zeros_row"
    using rest by simp
  ultimately show ?case by simp
qed

lemma initialize_eq:
  "initialize_proteins_and_thresholds_dataframe ps ts = Inr (empty_table ps ts)"
proof -
  let ?N = "length ps * length ts"
  from init_loop_prefix [of ?N ps ts] obtain df idx where
    run: "init_loop ps ts [0..<?N] (- 1, replicate ?N zeros_row) = Inr (idx, df)"
    and len: "length df = ?N"
    and sofar: "\<forall>j<?N. df ! j = empty_table ps ts ! j"
    by auto
  have "df = empty_table ps ts"
    using len sofar by (intro nth_equalityI) simp_all
  then show ?thesis
    using run by (simp add: initialize_proteins_and_thresholds_dataframe_def Let_def)
qed

section \<open>The loops fill every cell\<close>

lemma index_key_filled [simp]: "index_key (filled access pd anns n r) = index_key r"
  by (cases access) (simp_all add: index_key_def filled_def)

lemma filled_idem [simp]:
  "filled access pd anns n (filled access pd anns n r) = filled access pd anns n r"
  by (cases access) (simp_all add: filled_def)

lemma filled_copy: "filled Copy pd anns n r = r"
  by (simp add: filled_def)

lemma keys_preserved:
  assumes "\<And>r. index_key (g r) = index_key r"
  shows "index_key ` set (map g df) = index_key ` set df"
proof -
  have "map index_key (map g df) = map index_key df"
    using assms by simp
  then have "set (map index_key (map g df)) = set (map index_key df)"
    by simp
  then show ?thesis
    by (simp only: set_map)
qed

lemma loc_set_view:
  "(p, t) \<in> index_key ` set df \<Longrightarrow>
     loc_set View df p t upd = Inr (map (\<lambda>r. if index_key r = (p, t) then upd r else r) df)"
  by (simp add: loc_set_def)

lemma loc_set_copy:
  "(p, t) \<in> index_key ` set df \<Longrightarrow> loc_set Copy df p t upd = Inr df"
  by (simp add: loc_set_def)

lemma fill_cell_copy:
  fixes df :: "'v::linorder df_row list"
  assumes key: "(p, t) \<in> index_key ` set df"
    and ann: "dict_get anns p = Some terms"
  shows "fill_cell Copy pd anns (Some n) t p df = Inr df"
  unfolding fill_cell_def Let_def loc_set_int64_def
  using key ann by (simp add: loc_set_copy)

lemma fill_cell_view:
  fixes df :: "'v::linorder df_row list"
  assumes key: "(p, t) \<in> index_key ` set df"
    and ann: "dict_get anns p = Some terms"
  shows "fill_cell View pd anns (Some n) t p df =
           Inr (map (\<lambda>r. if index_key r = (p, t) then filled View pd anns n r else r) df)"
proof -
  let ?cm = "cell_counts pd anns p t"
  let ?v = "true_negative_of n ?cm"
  let ?u1 = "\<lambda>r::'v df_row. r\<lparr>tp := TP ?cm\<rparr>"
  let ?u2 = "\<lambda>r::'v df_row. r\<lparr>fp := FP ?cm\<rparr>"
  let ?u3 = "\<lambda>r::'v df_row. r\<lparr>fn := FN ?cm\<rparr>"
  let ?u4 = "\<lambda>r::'v df_row. r\<lparr>tn := ?v\<rparr>"
  let ?w = "\<lambda>u df. map (\<lambda>r. if index_key r = (p, t) then u r else r) df"
  have keep: "(p, t) \<in> index_key ` set (?w u d)"
    if "\<And>r. index_key (u r) = index_key r" and "(p, t) \<in> index_key ` set d"
    for u :: "'v df_row \<Rightarrow> 'v df_row" and d :: "'v df_row list"
  proof -
    have "index_key ` set (?w u d) = index_key ` set d"
      using that(1) by (intro keys_preserved) simp
    then show ?thesis using that(2) by simp
  qed
  have k1: "(p, t) \<in> index_key ` set (?w ?u1 df)"
    by (rule keep [OF _ key]) (simp add: index_key_def)
  have k2: "(p, t) \<in> index_key ` set (?w ?u2 (?w ?u1 df))"
    by (rule keep [OF _ k1]) (simp add: index_key_def)
  have k3: "(p, t) \<in> index_key ` set (?w ?u3 (?w ?u2 (?w ?u1 df)))"
    by (rule keep [OF _ k2]) (simp add: index_key_def)
  have cm: "calculate_confusion_matrix (predicted_annotations (dict_get_default pd p []) t) (set terms) = ?cm"
    using ann by (simp add: cell_counts_def benchmark_terms_of_def)
  have three: "fill_cell View pd anns (Some n) t p df =
      loc_set_int64 View (?w ?u3 (?w ?u2 (?w ?u1 df))) p t ?v (\<lambda>v r. r\<lparr>tn := v\<rparr>)"
    unfolding fill_cell_def Let_def
    using ann cm key k1 k2 by (simp add: loc_set_view)
  show ?thesis
  proof (cases "int64_ok ?v")
    case True
    with three k3 have "fill_cell View pd anns (Some n) t p df =
        Inr (?w ?u4 (?w ?u3 (?w ?u2 (?w ?u1 df))))"
      by (simp add: loc_set_int64_def loc_set_view)
    also have "?w ?u4 (?w ?u3 (?w ?u2 (?w ?u1 df))) = ?w (filled View pd anns n) df"
      using True by (auto simp: filled_def index_key_def)
    finally show ?thesis .
  next
    case False
    with three k3 have "fill_cell View pd anns (Some n) t p df =
        Inr (?w ?u3 (?w ?u2 (?w ?u1 df)))"
      by (simp add: loc_set_int64_def loc_set_copy)
    also have "?w ?u3 (?w ?u2 (?w ?u1 df)) = ?w (filled View pd anns n) df"
      using False by (auto simp: filled_def index_key_def)
    finally show ?thesis .
  qed
qed

lemma fill_cell_eq:
  fixes df :: "'v::linorder df_row list"
  assumes key: "(p, t) \<in> index_key ` set df"
    and ann: "dict_get anns p = Some terms"
  shows "fill_cell access pd anns (Some n) t p df =
           Inr (map (\<lambda>r. if index_key r = (p, t) then filled access pd anns n r else r) df)"
proof (cases access)
  case View
  with key ann show ?thesis by (simp add: fill_cell_view)
next
  case Copy
  have same: "map (\<lambda>r. if index_key r = (p, t) then filled Copy pd anns n r else r) df = df"
    by (rule map_idI) (simp add: filled_copy)
  have "fill_cell Copy pd anns (Some n) t p df = Inr df"
    using key ann by (rule fill_cell_copy)
  then show ?thesis
    unfolding Copy by (simp only: same)
qed

lemma fill_cell_filled_on:
  assumes key: "(p, t) \<in> index_key ` set df"
    and ann: "dict_get anns p = Some terms"
  shows "fill_cell access pd anns (Some n) t p (filled_on V access pd anns n df) =
           Inr (filled_on (insert (p, t) V) access pd anns n df)"
proof -
  have "index_key ` set (filled_on V access pd anns n df) = index_key ` set df"
    unfolding filled_on_def by (intro keys_preserved) simp
  then have "(p, t) \<in> index_key ` set (filled_on V access pd anns n df)"
    using key by simp
  then have "fill_cell access pd anns (Some n) t p (filled_on V access pd anns n df) =
      Inr (map (\<lambda>r. if index_key r = (p, t) then filled access pd anns n r else r)
             (filled_on V access pd anns n df))"
    using ann by (rule fill_cell_eq)
  also have "map (\<lambda>r. if index_key r = (p, t) then filled access pd anns n r else r)
             (filled_on V access pd anns n df) = filled_on (insert (p, t) V) access pd anns n df"
    by (auto simp: filled_on_def)
  finally show ?thesis .
qed

lemma proteins_loop_filled_on:
  assumes keys: "\<forall>p \<in> set ps. (p, t) \<in> index_key ` set df"
    and anns: "\<forall>p \<in> set ps. dict_get anns p \<noteq> None"
  shows "proteins_loop access pd anns (Some n) t ps (filled_on V access pd anns n df) =
           Inr (filled_on (V \<union> (set ps \<times> {t})) access pd anns n df)"
  using assms
proof (induction ps arbitrary: V)
  case Nil
  then show ?case by simp
next
  case (Cons p ps)
  from Cons.prems obtain terms where "dict_get anns p = Some terms" by auto
  moreover have "(p, t) \<in> index_key ` set df" using Cons.prems by simp
  ultimately have "fill_cell access pd anns (Some n) t p (filled_on V access pd anns n df) =
           Inr (filled_on (insert (p, t) V) access pd anns n df)"
    by (rule fill_cell_filled_on [rotated])
  moreover have "proteins_loop access pd anns (Some n) t ps
                   (filled_on (insert (p, t) V) access pd anns n df) =
           Inr (filled_on (insert (p, t) V \<union> (set ps \<times> {t})) access pd anns n df)"
    using Cons.prems by (intro Cons.IH) simp_all
  moreover have "insert (p, t) V \<union> (set ps \<times> {t}) = V \<union> (set (p # ps) \<times> {t})"
    by auto
  ultimately show ?case by simp
qed

lemma thresholds_loop_filled_on:
  assumes keys: "\<forall>p \<in> set ps. \<forall>t \<in> set ts. (p, t) \<in> index_key ` set df"
    and anns: "\<forall>p \<in> set ps. dict_get anns p \<noteq> None"
  shows "thresholds_loop access pd anns (Some n) ts ps (filled_on V access pd anns n df) =
           Inr (filled_on (V \<union> (set ps \<times> set ts)) access pd anns n df)"
  using assms
proof (induction ts arbitrary: V)
  case Nil
  then show ?case by simp
next
  case (Cons t ts)
  have "proteins_loop access pd anns (Some n) t ps (filled_on V access pd anns n df) =
           Inr (filled_on (V \<union> (set ps \<times> {t})) access pd anns n df)"
    using Cons.prems by (intro proteins_loop_filled_on) simp_all
  moreover have "thresholds_loop access pd anns (Some n) ts ps
                   (filled_on (V \<union> (set ps \<times> {t})) access pd anns n df) =
           Inr (filled_on (V \<union> (set ps \<times> {t}) \<union> (set ps \<times> set ts)) access pd anns n df)"
    using Cons.prems by (intro Cons.IH) simp_all
  moreover have "V \<union> (set ps \<times> {t}) \<union> (set ps \<times> set ts) = V \<union> (set ps \<times> set (t # ts))"
    by auto
  ultimately show ?case by simp
qed

lemma filled_on_empty [simp]: "filled_on {} access pd anns n df = df"
  by (simp add: filled_on_def)

lemma filled_on_all:
  "index_key ` set df \<subseteq> V \<Longrightarrow>
     filled_on V access pd anns n df = map (filled access pd anns n) df"
  by (auto simp: filled_on_def)

lemma index_key_key_row [simp]: "index_key (key_row p t) = (p, t)"
  by (simp add: index_key_def key_row_def)

lemma keys_empty_table: "map index_key (empty_table ps ts) = List.product ps ts"
  by (simp add: empty_table_def comp_def case_prod_beta)

lemma key_set_empty_table: "index_key ` set (empty_table ps ts) = set ps \<times> set ts"
  using keys_empty_table [of ps ts] by (metis set_map set_product)

lemma dict_get_key: "p \<in> set (dict_keys anns) \<Longrightarrow> dict_get anns p \<noteq> None"
  by (simp add: dict_keys_def dict_get_def map_of_eq_None_iff)

lemma thresholds_loop_eq:
  "thresholds_loop access pd anns (Some n) ts (dict_keys anns) (empty_table (dict_keys anns) ts) =
     Inr (map (filled access pd anns n) (empty_table (dict_keys anns) ts))"
proof -
  let ?df = "empty_table (dict_keys anns) ts"
  have "thresholds_loop access pd anns (Some n) ts (dict_keys anns)
          (filled_on {} access pd anns n ?df) =
          Inr (filled_on ({} \<union> (set (dict_keys anns) \<times> set ts)) access pd anns n ?df)"
    by (intro thresholds_loop_filled_on) (simp_all add: key_set_empty_table dict_get_key)
  then show ?thesis
    by (simp add: filled_on_all key_set_empty_table)
qed

section \<open>The returned table\<close>

lemma expected_row_fields:
  "protein (expected_row access pd bd anns n p t) = p"
  "threshold (expected_row access pd bd anns n p t) = t"
  "ontology (expected_row access pd bd anns n p t) = benchmark_ontology bd"
  "taxon_id (expected_row access pd bd anns n p t) = benchmark_taxon_id bd"
  "taxon (expected_row access pd bd anns n p t) = benchmark_taxon bd"
  by (cases access; simp add: expected_row_def insert_metadata_def filled_def key_row_def)+

lemma expected_row_view:
  "tp (expected_row View pd bd anns n p t) = TP (cell_counts pd anns p t)"
  "fp (expected_row View pd bd anns n p t) = FP (cell_counts pd anns p t)"
  "fn (expected_row View pd bd anns n p t) = FN (cell_counts pd anns p t)"
  "tn (expected_row View pd bd anns n p t) =
     (if int64_ok (true_negative_of n (cell_counts pd anns p t))
      then true_negative_of n (cell_counts pd anns p t) else 0)"
  by (simp_all add: expected_row_def insert_metadata_def filled_def key_row_def)

lemma expected_row_copy:
  "tp (expected_row Copy pd bd anns n p t) = 0"
  "fp (expected_row Copy pd bd anns n p t) = 0"
  "fn (expected_row Copy pd bd anns n p t) = 0"
  "tn (expected_row Copy pd bd anns n p t) = 0"
  by (simp_all add: expected_row_def insert_metadata_def filled_def key_row_def)

lemma index_key_expected_row [simp]:
  "index_key (expected_row access pd bd anns n p t) = (p, t)"
  by (simp add: index_key_def expected_row_fields)

lemma expected_table_rows:
  "r \<in> set (expected_table access ts pd bd anns n) \<longleftrightarrow>
     (\<exists>p \<in> set (dict_keys anns). \<exists>t \<in> set ts. r = expected_row access pd bd anns n p t)"
  by (auto simp: expected_table_def)

lemma expected_table_keys:
  "map index_key (expected_table access ts pd bd anns n) = List.product (dict_keys anns) ts"
  by (simp add: expected_table_def comp_def case_prod_beta)

lemma for_thresholds_returns:
  assumes "protein_annotations bd = Some anns"
    and "benchmark_ontology_term_count bd = Some n"
  shows "confusion_matrix_for_thresholds access ts pd bd =
           Inr (expected_table access ts pd bd anns n)"
proof -
  have "map (insert_metadata (benchmark_ontology bd) (benchmark_taxon_id bd) (benchmark_taxon bd))
          (map (filled access pd anns n) (empty_table (dict_keys anns) ts))
        = expected_table access ts pd bd anns n"
    by (simp add: expected_table_def empty_table_def expected_row_def comp_def case_prod_beta)
  then show ?thesis
    using assms
    by (simp add: confusion_matrix_for_thresholds_def initialize_eq thresholds_loop_eq)
qed

lemma product_Nil_right [simp]: "List.product xs [] = []"
  by (induction xs) simp_all

lemma fill_cell_no_count: "\<exists>e. fill_cell access pd anns None t p df = Inl e"
  by (simp add: fill_cell_def Let_def split: option.split)

lemma proteins_loop_no_count:
  "ps \<noteq> [] \<Longrightarrow> \<exists>e. proteins_loop access pd anns None t ps df = Inl e"
proof (cases ps)
  case Nil
  assume "ps \<noteq> []"
  with Nil show ?thesis by simp
next
  case (Cons p rest)
  obtain e where "fill_cell access pd anns None t p df = Inl e"
    using fill_cell_no_count by blast
  with Cons show ?thesis by simp
qed

lemma thresholds_loop_no_proteins: "thresholds_loop access pd anns c ts [] df = Inr df"
  by (induction ts) simp_all

lemma thresholds_loop_no_count:
  assumes "thresholds_loop access pd anns None ts ps df = Inr df'"
  shows "ts = [] \<or> ps = []"
proof (rule ccontr)
  assume "\<not> (ts = [] \<or> ps = [])"
  then obtain t rest where ts: "ts = t # rest" and ps: "ps \<noteq> []"
    by (cases ts) auto
  obtain e where "proteins_loop access pd anns None t ps df = Inl e"
    using proteins_loop_no_count [OF ps] by blast
  with ts assms show False by simp
qed

lemma for_thresholds_no_count:
  assumes res: "confusion_matrix_for_thresholds access ts pd bd = Inr tbl"
    and none: "benchmark_ontology_term_count bd = None"
  shows "tbl = []"
proof -
  from res obtain anns where anns: "protein_annotations bd = Some anns"
    by (auto simp: confusion_matrix_for_thresholds_def split: option.splits)
  from res anns none obtain df where
    loop: "thresholds_loop access pd anns None ts (dict_keys anns)
             (empty_table (dict_keys anns) ts) = Inr df"
    and tbl: "length tbl = length df"
    by (auto simp: confusion_matrix_for_thresholds_def initialize_eq Let_def split: sum.splits)
  from loop have e: "ts = [] \<or> dict_keys anns = []"
    by (rule thresholds_loop_no_count)
  then have "empty_table (dict_keys anns) ts = []"
    by (auto simp: empty_table_def)
  with loop e have "df = []"
    by (auto simp: thresholds_loop_no_proteins)
  with tbl show ?thesis by simp
qed

lemma for_thresholds_returned:
  assumes res: "confusion_matrix_for_thresholds access ts pd bd = Inr tbl"
  shows "\<exists>anns n. protein_annotations bd = Some anns
           \<and> tbl = expected_table access ts pd bd anns n
           \<and> (tbl \<noteq> [] \<longrightarrow> benchmark_ontology_term_count bd = Some n)"
proof -
  from res obtain anns where anns: "protein_annotations bd = Some anns"
    by (auto simp: confusion_matrix_for_thresholds_def split: option.splits)
  show ?thesis
  proof (cases "benchmark_ontology_term_count bd")
    case None
    with res have empty: "tbl = []" by (rule for_thresholds_no_count)
    from res anns None obtain df where
      "thresholds_loop access pd anns None ts (dict_keys anns)
         (empty_table (dict_keys anns) ts) = Inr df"
      by (auto simp: confusion_matrix_for_thresholds_def initialize_eq Let_def split: sum.splits)
    then have "ts = [] \<or> dict_keys anns = []"
      by (rule thresholds_loop_no_count)
    then have "List.product (dict_keys anns) ts = []" by auto
    with empty have "tbl = expected_table access ts pd bd anns 0"
      by (simp add: expected_table_def)
    with anns empty show ?thesis by blast
  next
    case (Some n)
    with anns res have "tbl = expected_table access ts pd bd anns n"
      by (simp add: for_thresholds_returns)
    with anns Some show ?thesis by blast
  qed
qed

lemma get_returned:
  assumes "get_confusion_matrix_dataframe access pd bd = Inr tbl"
  shows "\<exists>anns n. protein_annotations bd = Some anns
           \<and> tbl = expected_table access (distinct_prediction_thresholds pd) pd bd anns n
           \<and> (tbl \<noteq> [] \<longrightarrow> benchmark_ontology_term_count bd = Some n)"
  using assms unfolding get_confusion_matrix_dataframe_def by (rule for_thresholds_returned)


lemma empty_table_concat:
  "empty_table ps ts =
     concat (map (\<lambda>p. map (\<lambda>t. \<lparr>protein = p, threshold = t, tp = 0, fp = 0, fn = 0, tn = 0\<rparr>) ts) ps)"
  by (simp add: empty_table_def product_concat_map map_concat comp_def key_row_def)

lemma position_in_table:
  fixes i j P T :: nat
  assumes "i < P" and "j < T"
  shows "i * T + j < P * T"
proof -
  have "i * T + j < i * T + T" using assms(2) by simp
  also have "\<dots> = Suc i * T" by simp
  also have "\<dots> \<le> P * T" using assms(1) by (intro mult_le_mono1) simp
  finally show ?thesis .
qed

section \<open>Predicted sets and the counts of a cell\<close>

lemma predicted_annotations_iff:
  "k \<in> predicted_annotations scores thr \<longleftrightarrow> (\<exists>v. (k, v) \<in> set scores \<and> thr \<le> v)"
  by (auto simp: predicted_annotations_def dict_items_def)

lemma finite_predicted_annotations [simp]: "finite (predicted_annotations scores thr)"
  unfolding predicted_annotations_def by (rule finite_set)

lemma finite_benchmark_terms_of [simp]: "finite (benchmark_terms_of anns p)"
  by (simp add: benchmark_terms_of_def split: option.split)

lemma dict_ok_items:
  "dict_ok d \<Longrightarrow> (k, v) \<in> set d \<longleftrightarrow> dict_get d k = Some v"
  by (simp add: dict_ok_def dict_get_def)

lemma predicted_annotations_by_score:
  assumes "dict_ok scores"
  shows "predicted_annotations scores thr = {k. \<exists>v. dict_get scores k = Some v \<and> thr \<le> v}"
  using assms by (auto simp: predicted_annotations_iff dict_ok_items)

lemma predicted_annotations_antimono:
  "t1 \<le> t2 \<Longrightarrow> predicted_annotations scores t2 \<subseteq> predicted_annotations scores t1"
  unfolding predicted_annotations_iff subset_iff by (meson order_trans)

lemma cell_counts_tp_fp:
  "TP (cell_counts pd anns p t) + FP (cell_counts pd anns p t) =
     int (card (predicted_annotations (dict_get_default pd p []) t))"
proof -
  let ?P = "predicted_annotations (dict_get_default pd p []) t"
  let ?B = "benchmark_terms_of anns p"
  have "card ((?P \<inter> ?B) \<union> (?P - ?B)) = card (?P \<inter> ?B) + card (?P - ?B)"
    by (intro card_Un_disjoint) auto
  moreover have "(?P \<inter> ?B) \<union> (?P - ?B) = ?P" by auto
  ultimately have "card (?P \<inter> ?B) + card (?P - ?B) = card ?P" by simp
  then have "int (card (?P \<inter> ?B)) + int (card (?P - ?B)) = int (card ?P)"
    by (metis of_nat_add)
  then show ?thesis
    by (simp add: cell_counts_def cm_counts_simps)
qed

lemma cell_counts_fp_mono:
  assumes "t1 \<le> t2"
  shows "FP (cell_counts pd anns p t2) \<le> FP (cell_counts pd anns p t1)"
proof -
  let ?s = "dict_get_default pd p []"
  have "predicted_annotations ?s t2 - benchmark_terms_of anns p
          \<subseteq> predicted_annotations ?s t1 - benchmark_terms_of anns p"
    using predicted_annotations_antimono [OF assms] by blast
  then have "card (predicted_annotations ?s t2 - benchmark_terms_of anns p)
          \<le> card (predicted_annotations ?s t1 - benchmark_terms_of anns p)"
    by (intro card_mono) simp_all
  then show ?thesis
    by (simp add: cell_counts_def cm_counts_simps)
qed

lemma cell_counts_fn_mono:
  assumes "t1 \<le> t2"
  shows "FN (cell_counts pd anns p t1) \<le> FN (cell_counts pd anns p t2)"
proof -
  let ?s = "dict_get_default pd p []"
  have "benchmark_terms_of anns p - predicted_annotations ?s t1
          \<subseteq> benchmark_terms_of anns p - predicted_annotations ?s t2"
    using predicted_annotations_antimono [OF assms] by blast
  then have "card (benchmark_terms_of anns p - predicted_annotations ?s t1)
          \<le> card (benchmark_terms_of anns p - predicted_annotations ?s t2)"
    by (intro card_mono) simp_all
  then show ?thesis
    by (simp add: cell_counts_def cm_counts_simps)
qed


lemma prediction_scores_eq:
  "prediction_scores pd =
     {v. \<exists>prot scores term. (prot, scores) \<in> set (dict_items pd) \<and> (term, v) \<in> set (dict_items scores)}"
  by (force simp: prediction_scores_def dict_values_def dict_items_def)

lemma finite_prediction_scores [simp]: "finite (prediction_scores pd)"
  unfolding prediction_scores_def by (rule finite_set)

lemma thresholds_sorted_distinct:
  "sorted (distinct_prediction_thresholds pd)"
  "distinct (distinct_prediction_thresholds pd)"
  "set (distinct_prediction_thresholds pd) = prediction_scores pd"
  by (simp_all add: distinct_prediction_thresholds_def)

section \<open>Runs on the concrete inputs\<close>

lemma scenario_A_table:
  "get_confusion_matrix_dataframe View scenario_A_predictions scenario_A_benchmark =
     Inr [scenario_A_row_05, scenario_A_row_09]"
  by code_simp




lemma small_ontology_unwritten:
  "get_confusion_matrix_dataframe Copy scenario_A_predictions small_ontology_benchmark =
     Inr [unwritten_row_05, unwritten_row_09]"
  by code_simp

lemma scenario_B_run:
  "get_confusion_matrix_dataframe View scenario_B_predictions scenario_B_benchmark =
     Inr scenario_B_table"
  by code_simp



lemma scenario_A_scores:
  "dict_get_default scenario_A_predictions ''P1'' [] = [(''GO:1'', 0.5), (''GO:2'', 0.9)]"
  by (simp add: scenario_A_predictions_def dict_get_default_def)

lemma scenario_A_thresholds:
  "distinct_prediction_thresholds scenario_A_predictions = [0.5, 0.9]"
  by code_simp

lemma scenario_B_thresholds:
  "distinct_prediction_thresholds scenario_B_predictions = [0.5, 0.7, 0.9]"
  by code_simp

section \<open>The claims\<close>




text \<open>
  Claim C2.  For every protein and every threshold, the set of predicted terms that the
  populator computes (from the protein's score dictionary, or the empty dictionary when
  the protein has no predictions) is exactly the set of terms whose score is greater than
  or equal to the threshold; a term scored exactly at the threshold is in it.  When the
  chained writes reach the table, this set is what \<open>tp + fp\<close> of the protein's row at
  that threshold counts.
\<close>

theorem predicted_set_includes_threshold:
  assumes "dict_ok (dict_get_default pd prot [])"
  shows "predicted_annotations (dict_get_default pd prot []) thr =
           {k. \<exists>v. dict_get (dict_get_default pd prot []) k = Some v \<and> thr \<le> v}
         \<and> (\<forall>k. dict_get (dict_get_default pd prot []) k = Some thr \<longrightarrow>
               k \<in> predicted_annotations (dict_get_default pd prot []) thr)
         \<and> (\<forall>tbl r. get_confusion_matrix_dataframe View pd bd = Inr tbl \<and> r \<in> set tbl
                      \<and> protein r = prot \<longrightarrow>
               tp r + fp r =
                 int (card {k. \<exists>v. dict_get (dict_get_default pd prot []) k = Some v \<and> threshold r \<le> v}))"
proof -
  let ?scores = "dict_get_default pd prot []"
  have eq: "predicted_annotations ?scores t = {k. \<exists>v. dict_get ?scores k = Some v \<and> t \<le> v}" for t
    using assms by (rule predicted_annotations_by_score)
  have "tp r + fp r = int (card {k. \<exists>v. dict_get ?scores k = Some v \<and> threshold r \<le> v})"
    if res: "get_confusion_matrix_dataframe View pd bd = Inr tbl" and r: "r \<in> set tbl"
      and p: "protein r = prot" for tbl r
  proof -
    from get_returned [OF res] obtain anns n where
      "tbl = expected_table View (distinct_prediction_thresholds pd) pd bd anns n"
      by blast
    with r obtain p' t where row: "r = expected_row View pd bd anns n p' t"
      by (auto simp: expected_table_rows)
    with p have "p' = prot" by (simp add: expected_row_fields)
    with row have "tp r + fp r = int (card (predicted_annotations ?scores (threshold r)))"
      by (simp add: expected_row_fields expected_row_view cell_counts_tp_fp)
    then show ?thesis by (simp only: eq)
  qed
  moreover have "\<forall>k. dict_get ?scores k = Some thr \<longrightarrow> k \<in> predicted_annotations ?scores thr"
    by (simp add: eq)
  ultimately show ?thesis
    using eq [of thr] by blast
qed

theorem predicted_set_includes_threshold_witness:
  "dict_ok (dict_get_default scenario_A_predictions ''P1'' [])
   \<and> dict_get (dict_get_default scenario_A_predictions ''P1'' []) ''GO:1'' = Some 0.5
   \<and> ''GO:1'' \<in> predicted_annotations (dict_get_default scenario_A_predictions ''P1'' []) 0.5
   \<and> get_confusion_matrix_dataframe View scenario_A_predictions scenario_A_benchmark =
        Inr [scenario_A_row_05, scenario_A_row_09]
   \<and> tp scenario_A_row_05 + fp scenario_A_row_05 =
        int (card {k. \<exists>v. dict_get (dict_get_default scenario_A_predictions ''P1'' []) k = Some v
                        \<and> threshold scenario_A_row_05 \<le> v})"
proof -
  have ok: "dict_ok (dict_get_default scenario_A_predictions ''P1'' [])"
    by (simp add: scenario_A_scores dict_ok_def)
  have score: "dict_get (dict_get_default scenario_A_predictions ''P1'' []) ''GO:1'' = Some 0.5"
    by (simp add: scenario_A_scores dict_get_def)
  have row: "scenario_A_row_05 \<in> set [scenario_A_row_05, scenario_A_row_09]"
    and prot: "protein scenario_A_row_05 = ''P1''"
    by (simp_all add: scenario_A_row_05_def)
  note inst = predicted_set_includes_threshold [OF ok, of "0.5" scenario_A_benchmark]
  from inst score have "''GO:1'' \<in> predicted_annotations (dict_get_default scenario_A_predictions ''P1'' []) 0.5"
    by blast
  moreover from inst scenario_A_table row prot
  have "tp scenario_A_row_05 + fp scenario_A_row_05 =
        int (card {k. \<exists>v. dict_get (dict_get_default scenario_A_predictions ''P1'' []) k = Some v
                        \<and> threshold scenario_A_row_05 \<le> v})"
    by blast
  ultimately show ?thesis
    using ok score scenario_A_table by blast
qed

text \<open>
  Claim C3.  The threshold list is sorted ascending, has no duplicates, and its elements
  are exactly the scores that occur in the score dictionary of some protein of the
  prediction dictionary.  The keys of the returned table are, in order, every benchmark
  protein paired with every threshold of that list: each row's threshold is in the list
  (no more), and the thresholds of the rows of each benchmark protein are all of the list
  (no fewer).  Rows belong to benchmark proteins, so a benchmark without proteins has a
  table without rows.  This holds whether or not the chained writes reach the table.
\<close>

theorem thresholds_are_the_distinct_scores:
  assumes res: "get_confusion_matrix_dataframe access pd bd = Inr tbl"
  shows "sorted (distinct_prediction_thresholds pd)
         \<and> distinct (distinct_prediction_thresholds pd)
         \<and> set (distinct_prediction_thresholds pd) =
             {v. \<exists>prot scores term. (prot, scores) \<in> set (dict_items pd)
                                   \<and> (term, v) \<in> set (dict_items scores)}
         \<and> (\<forall>r\<in>set tbl. threshold r \<in> set (distinct_prediction_thresholds pd))
         \<and> (\<exists>anns. protein_annotations bd = Some anns
               \<and> map index_key tbl =
                   concat (map (\<lambda>p. map (\<lambda>t. (p, t)) (distinct_prediction_thresholds pd))
                             (dict_keys anns))
               \<and> (\<forall>p\<in>set (dict_keys anns).
                     {threshold r |r. r \<in> set tbl \<and> protein r = p} =
                       set (distinct_prediction_thresholds pd)))"
proof -
  let ?ts = "distinct_prediction_thresholds pd"
  from get_returned [OF res] obtain anns n where
    anns: "protein_annotations bd = Some anns"
    and tbl: "tbl = expected_table access ?ts pd bd anns n"
    by blast
  have keys: "map index_key tbl = concat (map (\<lambda>p. map (\<lambda>t. (p, t)) ?ts) (dict_keys anns))"
    by (simp add: tbl expected_table_keys product_concat_map)
  have within: "\<forall>r\<in>set tbl. threshold r \<in> set ?ts"
    by (auto simp: tbl expected_table_rows expected_row_fields)
  have each: "{threshold r |r. r \<in> set tbl \<and> protein r = p} = set ?ts"
    if p: "p \<in> set (dict_keys anns)" for p
  proof (intro equalityI subsetI)
    fix t assume "t \<in> {threshold r |r. r \<in> set tbl \<and> protein r = p}"
    then show "t \<in> set ?ts" using within by auto
  next
    fix t assume t: "t \<in> set ?ts"
    with p have "expected_row access pd bd anns n p t \<in> set tbl"
      by (auto simp: tbl expected_table_rows)
    moreover have "threshold (expected_row access pd bd anns n p t) = t"
      and "protein (expected_row access pd bd anns n p t) = p"
      by (simp_all add: expected_row_fields)
    ultimately show "t \<in> {threshold r |r. r \<in> set tbl \<and> protein r = p}"
      by (auto intro!: exI [of _ "expected_row access pd bd anns n p t"])
  qed
  have "set ?ts = {v. \<exists>prot scores term. (prot, scores) \<in> set (dict_items pd)
                                   \<and> (term, v) \<in> set (dict_items scores)}"
    by (simp only: thresholds_sorted_distinct prediction_scores_eq)
  with anns keys within each show ?thesis
    by (simp only: thresholds_sorted_distinct) blast
qed

theorem thresholds_are_the_distinct_scores_witness:
  "get_confusion_matrix_dataframe View scenario_B_predictions scenario_B_benchmark = Inr scenario_B_table
   \<and> distinct_prediction_thresholds scenario_B_predictions = [0.5, 0.7, 0.9]
   \<and> set [0.5, 0.7, 0.9] =
       {v. \<exists>prot scores term. (prot, scores) \<in> set (dict_items scenario_B_predictions)
                             \<and> (term, v) \<in> set (dict_items scores)}
   \<and> map index_key scenario_B_table =
       [(''P1'', 0.5), (''P1'', 0.7), (''P1'', 0.9), (''P2'', 0.5), (''P2'', 0.7), (''P2'', 0.9)]"
proof -
  have keys: "map index_key scenario_B_table =
       [(''P1'', 0.5), (''P1'', 0.7), (''P1'', 0.9), (''P2'', 0.5), (''P2'', 0.7), (''P2'', 0.9)]"
    by (simp add: scenario_B_table_def scenario_B_row_def index_key_def)
  from thresholds_are_the_distinct_scores [OF scenario_B_run]
  have "set (distinct_prediction_thresholds scenario_B_predictions) =
       {v. \<exists>prot scores term. (prot, scores) \<in> set (dict_items scenario_B_predictions)
                             \<and> (term, v) \<in> set (dict_items scores)}"
    by blast
  with scenario_B_run scenario_B_thresholds keys show ?thesis
    by simp
qed




text \<open>
  Claim C5.  For every two sets of terms, \<open>calculate_confusion_matrix\<close> returns
  \<open>TP = |predicted \<inter> benchmark|\<close>, \<open>FP = |predicted - benchmark|\<close> and
  \<open>FN = |benchmark - predicted|\<close>.  Its result is a function of the two sets alone:
  listing the elements of either set in another order, or more than once, does not
  change it.
\<close>

theorem calculate_confusion_matrix_counts:
  "TP (calculate_confusion_matrix predicted benchmark_terms) = int (card (predicted \<inter> benchmark_terms))
   \<and> FP (calculate_confusion_matrix predicted benchmark_terms) = int (card (predicted - benchmark_terms))
   \<and> FN (calculate_confusion_matrix predicted benchmark_terms) = int (card (benchmark_terms - predicted))
   \<and> calculate_confusion_matrix (set (rev xs @ xs)) (set (ys @ rev ys))
       = calculate_confusion_matrix (set xs) (set ys)"
  by (simp add: cm_counts_simps)

theorem calculate_confusion_matrix_counts_witness:
  "TP (calculate_confusion_matrix {''GO:1'', ''GO:2''} {''GO:1'', ''GO:3''}) = 1
   \<and> FP (calculate_confusion_matrix {''GO:1'', ''GO:2''} {''GO:1'', ''GO:3''}) = 1
   \<and> FN (calculate_confusion_matrix {''GO:1'', ''GO:2''} {''GO:1'', ''GO:3''}) = 1"
proof -
  have "{''GO:1'', ''GO:2''} \<inter> {''GO:1'', ''GO:3''} = {''GO:1''}"
    and "{''GO:1'', ''GO:2''} - {''GO:1'', ''GO:3''} = {''GO:2''}"
    and "{''GO:1'', ''GO:3''} - {''GO:1'', ''GO:2''} = {''GO:3''}"
    by auto
  with calculate_confusion_matrix_counts [of "{''GO:1'', ''GO:2''}" "{''GO:1'', ''GO:3''}" "[]" "[]"]
  show ?thesis by simp
qed

text \<open>
  Claim C6, as amended.  For every list of \<open>P\<close> proteins and every list of \<open>T\<close>
  thresholds the initializer returns (it raises nothing) a table of \<open>P * T\<close> rows, the
  rows of the first protein for every threshold in turn, then those of the second protein,
  and so on, so that row \<open>i * T + j\<close> is keyed by protein \<open>i\<close> and threshold \<open>j\<close>; the
  four integer columns are zero.  The composite keys are pairwise different when neither
  input list repeats an element.  The claim as stated promises unique keys for every
  input; the function does not look for repeated elements, and a repeated protein gives
  repeated keys: the last theorem of this block runs the function on such a list.
\<close>

theorem initializer_builds_zero_table:
  "\<exists>df. initialize_proteins_and_thresholds_dataframe proteins thresholds = Inr df
     \<and> length df = length proteins * length thresholds
     \<and> df = concat (map (\<lambda>p. map (\<lambda>t.
               \<lparr>protein = p, threshold = t, tp = 0, fp = 0, fn = 0, tn = 0\<rparr>) thresholds) proteins)
     \<and> (\<forall>i<length proteins. \<forall>j<length thresholds.
           df ! (i * length thresholds + j) =
             \<lparr>protein = proteins ! i, threshold = thresholds ! j, tp = 0, fp = 0, fn = 0, tn = 0\<rparr>)
     \<and> (distinct proteins \<and> distinct thresholds \<longrightarrow> distinct (map index_key df))"
proof -
  let ?df = "empty_table proteins thresholds"
  have "\<forall>i<length proteins. \<forall>j<length thresholds.
           ?df ! (i * length thresholds + j) =
             \<lparr>protein = proteins ! i, threshold = thresholds ! j, tp = 0, fp = 0, fn = 0, tn = 0\<rparr>"
  proof (intro allI impI)
    fix i j
    assume i: "i < length proteins" and j: "j < length thresholds"
    then have "i * length thresholds + j < length proteins * length thresholds"
      by (rule position_in_table)
    then have "?df ! (i * length thresholds + j) =
        key_row (proteins ! ((i * length thresholds + j) div length thresholds))
                (thresholds ! ((i * length thresholds + j) mod length thresholds))"
      by (rule empty_table_nth)
    moreover have "(i * length thresholds + j) div length thresholds = i"
    proof -
      from j have "length thresholds \<noteq> 0" by auto
      then have "(i * length thresholds + j) div length thresholds = i + j div length thresholds"
        by (rule div_mult_self3)
      with j show ?thesis by simp
    qed
    ultimately show "?df ! (i * length thresholds + j) =
             \<lparr>protein = proteins ! i, threshold = thresholds ! j, tp = 0, fp = 0, fn = 0, tn = 0\<rparr>"
      using j by (simp add: key_row_def)
  qed
  moreover have "distinct proteins \<and> distinct thresholds \<longrightarrow> distinct (map index_key ?df)"
    by (simp add: keys_empty_table distinct_product)
  moreover have "?df = concat (map (\<lambda>p. map (\<lambda>t.
               \<lparr>protein = p, threshold = t, tp = 0, fp = 0, fn = 0, tn = 0\<rparr>) thresholds) proteins)"
    by (rule empty_table_concat)
  ultimately show ?thesis
    using initialize_eq [of proteins thresholds] length_empty_table [of proteins thresholds]
    by blast
qed

theorem initializer_builds_zero_table_witness:
  "distinct [''T1'', ''T2''] \<and> distinct [0.1, 0.2, 0.3 :: real]
   \<and> (\<exists>df. initialize_proteins_and_thresholds_dataframe [''T1'', ''T2''] [0.1, 0.2, 0.3 :: real] = Inr df
         \<and> length df = 6
         \<and> df ! (1 * 3 + 2) = \<lparr>protein = ''T2'', threshold = 0.3, tp = 0, fp = 0, fn = 0, tn = 0\<rparr>
         \<and> distinct (map index_key df))"
proof -
  have d: "distinct [''T1'', ''T2''] \<and> distinct [0.1, 0.2, 0.3 :: real]"
    by simp
  from initializer_builds_zero_table [of "[''T1'', ''T2'']" "[0.1, 0.2, 0.3 :: real]"]
  obtain df where
    run: "initialize_proteins_and_thresholds_dataframe [''T1'', ''T2''] [0.1, 0.2, 0.3 :: real] = Inr df"
    and len: "length df = length [''T1'', ''T2''] * length [0.1, 0.2, 0.3 :: real]"
    and nth: "\<forall>i<length [''T1'', ''T2'']. \<forall>j<length [0.1, 0.2, 0.3 :: real].
           df ! (i * length [0.1, 0.2, 0.3 :: real] + j) =
             \<lparr>protein = [''T1'', ''T2''] ! i, threshold = [0.1, 0.2, 0.3 :: real] ! j,
              tp = 0, fp = 0, fn = 0, tn = 0\<rparr>"
    and dis: "distinct [''T1'', ''T2''] \<and> distinct [0.1, 0.2, 0.3 :: real] \<longrightarrow> distinct (map index_key df)"
    by blast
  from nth [rule_format, of 1 2]
  have "df ! (1 * 3 + 2) = \<lparr>protein = ''T2'', threshold = 0.3, tp = 0, fp = 0, fn = 0, tn = 0\<rparr>"
    by (simp add: eval_nat_numeral)
  with d run len dis show ?thesis by auto
qed

text \<open>
  A protein list that repeats an element: the two rows of the table carry the same key.
\<close>

theorem initializer_repeated_protein_repeats_key:
  "initialize_proteins_and_thresholds_dataframe [''P1'', ''P1''] [0.5 :: real] =
     Inr [\<lparr>protein = ''P1'', threshold = 0.5, tp = 0, fp = 0, fn = 0, tn = 0\<rparr>,
          \<lparr>protein = ''P1'', threshold = 0.5, tp = 0, fp = 0, fn = 0, tn = 0\<rparr>]
   \<and> \<not> distinct (map index_key
         [\<lparr>protein = ''P1'', threshold = 0.5 :: real, tp = 0, fp = 0, fn = 0, tn = 0\<rparr>,
          \<lparr>protein = ''P1'', threshold = 0.5, tp = 0, fp = 0, fn = 0, tn = 0\<rparr>])"
  by code_simp

text \<open>
  Claim C7.  For two rows of the returned table with the same protein, the one at the
  higher threshold has the smaller predicted set (a subset of the other), a false-positive
  count that is not larger and a false-negative count that is not smaller.  This holds
  whether or not the chained writes reach the table.
\<close>

theorem counts_monotone_in_threshold:
  assumes res: "get_confusion_matrix_dataframe access pd bd = Inr tbl"
    and r1: "r1 \<in> set tbl" and r2: "r2 \<in> set tbl"
    and same: "protein r1 = protein r2"
    and le: "threshold r1 \<le> threshold r2"
  shows "predicted_annotations (dict_get_default pd (protein r1) []) (threshold r2)
           \<subseteq> predicted_annotations (dict_get_default pd (protein r1) []) (threshold r1)
         \<and> fp r2 \<le> fp r1 \<and> fn r1 \<le> fn r2"
proof -
  from get_returned [OF res] obtain anns n where
    tbl: "tbl = expected_table access (distinct_prediction_thresholds pd) pd bd anns n"
    by blast
  from r1 tbl obtain p1 t1 where row1: "r1 = expected_row access pd bd anns n p1 t1"
    by (auto simp: expected_table_rows)
  from r2 tbl obtain p2 t2 where row2: "r2 = expected_row access pd bd anns n p2 t2"
    by (auto simp: expected_table_rows)
  from same row1 row2 have p: "p2 = p1" by (simp add: expected_row_fields)
  from le row1 row2 have t: "t1 \<le> t2" by (simp add: expected_row_fields)
  have "fp r2 \<le> fp r1 \<and> fn r1 \<le> fn r2"
  proof (cases access)
    case View
    then show ?thesis
      using cell_counts_fp_mono [OF t] cell_counts_fn_mono [OF t]
      by (simp add: row1 row2 p expected_row_view)
  next
    case Copy
    then show ?thesis
      by (simp add: row1 row2 expected_row_copy)
  qed
  then show ?thesis
    using predicted_annotations_antimono [OF le] by blast
qed

theorem counts_monotone_in_threshold_witness:
  "get_confusion_matrix_dataframe View scenario_A_predictions scenario_A_benchmark =
     Inr [scenario_A_row_05, scenario_A_row_09]
   \<and> protein scenario_A_row_05 = protein scenario_A_row_09
   \<and> threshold scenario_A_row_05 \<le> threshold scenario_A_row_09
   \<and> fp scenario_A_row_09 \<le> fp scenario_A_row_05
   \<and> fn scenario_A_row_05 \<le> fn scenario_A_row_09
   \<and> fn scenario_A_row_05 = 1 \<and> fn scenario_A_row_09 = 2"
proof -
  have r1: "scenario_A_row_05 \<in> set [scenario_A_row_05, scenario_A_row_09]"
    and r2: "scenario_A_row_09 \<in> set [scenario_A_row_05, scenario_A_row_09]"
    by simp_all
  have same: "protein scenario_A_row_05 = protein scenario_A_row_09"
    by (simp add: scenario_A_row_05_def scenario_A_row_09_def)
  have le: "threshold scenario_A_row_05 \<le> threshold scenario_A_row_09"
    by (simp add: scenario_A_row_05_def scenario_A_row_09_def)
  have vals: "fn scenario_A_row_05 = 1 \<and> fn scenario_A_row_09 = 2"
    by (simp add: scenario_A_row_05_def scenario_A_row_09_def)
  from counts_monotone_in_threshold [OF scenario_A_table r1 r2 same le]
  have "fp scenario_A_row_09 \<le> fp scenario_A_row_05 \<and> fn scenario_A_row_05 \<le> fn scenario_A_row_09"
    by blast
  with scenario_A_table same le vals show ?thesis by blast
qed



text \<open>
  Claim C10.  The three sets of \<open>get_confusion_matrix_terms\<close> are pairwise disjoint,
  \<open>TP \<union> FP\<close> is the predicted set and \<open>TP \<union> FN\<close> is the benchmark set; for the
  counts of \<open>calculate_confusion_matrix\<close> on finite sets (every Python set is finite),
  \<open>TP + FP = |predicted|\<close> and \<open>TP + FN = |benchmark|\<close>.
\<close>

theorem confusion_terms_partition:
  "TP_terms (get_confusion_matrix_terms P B) \<inter> FP_terms (get_confusion_matrix_terms P B) = {}
   \<and> TP_terms (get_confusion_matrix_terms P B) \<inter> FN_terms (get_confusion_matrix_terms P B) = {}
   \<and> FP_terms (get_confusion_matrix_terms P B) \<inter> FN_terms (get_confusion_matrix_terms P B) = {}
   \<and> TP_terms (get_confusion_matrix_terms P B) \<union> FP_terms (get_confusion_matrix_terms P B) = P
   \<and> TP_terms (get_confusion_matrix_terms P B) \<union> FN_terms (get_confusion_matrix_terms P B) = B
   \<and> (finite P \<longrightarrow>
        TP (calculate_confusion_matrix P B) + FP (calculate_confusion_matrix P B) = int (card P))
   \<and> (finite B \<longrightarrow>
        TP (calculate_confusion_matrix P B) + FN (calculate_confusion_matrix P B) = int (card B))"
proof -
  have sets: "(P \<inter> B) \<inter> (P - B) = {}" "(P \<inter> B) \<inter> (B - P) = {}" "(P - B) \<inter> (B - P) = {}"
    "(P \<inter> B) \<union> (P - B) = P" "(P \<inter> B) \<union> (B - P) = B"
    by auto
  have cp: "card (P \<inter> B) + card (P - B) = card P" if "finite P"
  proof -
    have "card ((P \<inter> B) \<union> (P - B)) = card (P \<inter> B) + card (P - B)"
      using that by (intro card_Un_disjoint) auto
    then show ?thesis by (simp add: sets)
  qed
  have cb: "card (P \<inter> B) + card (B - P) = card B" if "finite B"
  proof -
    have "card ((P \<inter> B) \<union> (B - P)) = card (P \<inter> B) + card (B - P)"
      using that by (intro card_Un_disjoint) auto
    then show ?thesis by (simp add: sets)
  qed
  have "finite P \<longrightarrow> int (card (P \<inter> B)) + int (card (P - B)) = int (card P)"
    using cp by (metis of_nat_add)
  moreover have "finite B \<longrightarrow> int (card (P \<inter> B)) + int (card (B - P)) = int (card B)"
    using cb by (metis of_nat_add)
  ultimately show ?thesis
    by (simp add: cm_terms_simps cm_counts_simps sets)
qed

theorem confusion_terms_partition_witness:
  "finite {''GO:1'', ''GO:2''} \<and> finite {''GO:1'', ''GO:3''}
   \<and> TP_terms (get_confusion_matrix_terms {''GO:1'', ''GO:2''} {''GO:1'', ''GO:3''})
       \<union> FP_terms (get_confusion_matrix_terms {''GO:1'', ''GO:2''} {''GO:1'', ''GO:3''})
       = {''GO:1'', ''GO:2''}
   \<and> TP (calculate_confusion_matrix {''GO:1'', ''GO:2''} {''GO:1'', ''GO:3''})
       + FP (calculate_confusion_matrix {''GO:1'', ''GO:2''} {''GO:1'', ''GO:3''}) = 2
   \<and> TP (calculate_confusion_matrix {''GO:1'', ''GO:2''} {''GO:1'', ''GO:3''})
       + FN (calculate_confusion_matrix {''GO:1'', ''GO:2''} {''GO:1'', ''GO:3''}) = 2"
  using confusion_terms_partition [of "{''GO:1'', ''GO:2''}" "{''GO:1'', ''GO:3''}"]
  by simp

end
